theory Spec2Isabelle
  imports Main "HOL-Library.Word"
begin

unbundle bit_operations_syntax

section \<open>Processor state (core.c, lines 7-54)\<close>

text \<open>
  The condition codes are a C bit-field struct: five one-bit unsigned fields and three
  bits of padding. A one-bit unsigned field is a \<open>1 word\<close>; storing a wider value
  into it keeps the low bit, which is what \<open>ucast\<close> to \<open>1 word\<close> does.
\<close>

record ConditionCodes =
  z :: "1 word"
  s :: "1 word"
  p :: "1 word"
  cy :: "1 word"
  ac :: "1 word"
  pad :: "3 word"

text \<open>
  The memory is a heap block of bytes whose size is fixed when it is allocated
  (\<open>state_alloc\<close>, \<open>load_and_run\<close> in emu.c); it is a list of bytes here, and its
  length is the size of the block.
\<close>

record State8080 =
  a :: "8 word"
  b :: "8 word"
  c :: "8 word"
  d :: "8 word"
  e :: "8 word"
  h :: "8 word"
  l :: "8 word"
  sp :: "16 word"
  pc :: "16 word"
  memory :: "8 word list"
  cc :: ConditionCodes
  int_enable :: "8 word"

text \<open>
  The ways one call of \<open>emulate_op\<close> can fail to return. \<open>unimplemented_instr\<close> and
  \<open>unused_opcode\<close> print a message and call \<open>exit(1)\<close>; the value carries the
  processor state as it is at that moment (and, for \<open>unused_opcode\<close>, the opcode byte
  it prints). The source never checks an index into the memory block, so an access past the
  end of the block is undefined behaviour in C; the model makes it the separate outcome
  \<open>Out_of_bounds\<close> with the offending index, and says nothing about what happens after.
\<close>

datatype stop =
    Exit_unimplemented State8080
  | Exit_unused "8 word" State8080
  | Out_of_bounds nat

definition and_then :: "stop + 'x \<Rightarrow> ('x \<Rightarrow> stop + 'y) \<Rightarrow> stop + 'y" where
  "and_then r f = (case r of Inl f' \<Rightarrow> Inl f' | Inr v \<Rightarrow> f v)"

definition mem_read :: "State8080 \<Rightarrow> nat \<Rightarrow> stop + 8 word" where
  "mem_read st i = (if i < length (memory st) then Inr (memory st ! i) else Inl (Out_of_bounds i))"

definition mem_write :: "State8080 \<Rightarrow> nat \<Rightarrow> 8 word \<Rightarrow> stop + State8080" where
  "mem_write st i v =
     (if i < length (memory st) then Inr (st\<lparr>memory := (memory st)[i := v]\<rparr>)
      else Inl (Out_of_bounds i))"

definition unimplemented_instr :: "State8080 \<Rightarrow> stop + State8080" where
  "unimplemented_instr st = Inl (Exit_unimplemented st)"

definition unused_opcode :: "State8080 \<Rightarrow> stop + State8080" where
  "unused_opcode st =
     and_then (mem_read st (unat (pc st))) (\<lambda>opcode. Inl (Exit_unused opcode st))"

section \<open>Flags (core.c, lines 100-236)\<close>

definition zero :: "16 word \<Rightarrow> 8 word" where
  "zero answer = (if answer AND 0xff = 0 then 1 else 0)"

definition sign :: "16 word \<Rightarrow> 8 word" where
  "sign answer = (if answer AND 0x80 = 0 then 1 else 0)"

definition sign32 :: "32 word \<Rightarrow> 8 word" where
  "sign32 answer = (if answer AND 0x8000 = 0 then 1 else 0)"

text \<open>
  The loop of \<open>parity\<close>: while \<open>ans8bit\<close> is not zero, flip \<open>parity\<close> (C's \<open>!\<close>)
  and clear the lowest set bit of \<open>ans8bit\<close>.
\<close>

function parity_loop :: "8 word \<Rightarrow> 8 word \<Rightarrow> 8 word" where
  "parity_loop par ans8bit =
     (if ans8bit \<noteq> 0
      then parity_loop (if par = 0 then 1 else 0) (ans8bit AND (ans8bit - 1))
      else par)"
  by pat_completeness auto
termination
proof (relation "measure (\<lambda>(par, w). unat w)")
  show "wf (measure (\<lambda>(par, w). unat w))" by simp
next
  fix par w :: "8 word"
  assume nz: "w \<noteq> 0"
  have "w AND (w - 1) \<le> w - 1" by (rule word_and_le1)
  then have "unat (w AND (w - 1)) \<le> unat (w - 1)" by (simp add: word_le_nat_alt)
  also have "unat (w - 1) < unat w" using nz by (rule measure_unat)
  finally show "((if par = 0 then 1 else 0, w AND (w - 1)), (par, w)) \<in> measure (\<lambda>(par, w). unat w)"
    by simp
qed

definition parity :: "16 word \<Rightarrow> 8 word" where
  "parity answer = parity_loop 0 (ucast (answer AND 0xff))"

definition carry :: "16 word \<Rightarrow> 8 word" where
  "carry answer = (if answer > 0xff then 1 else 0)"

definition carry32 :: "32 word \<Rightarrow> 8 word" where
  "carry32 answer = (if answer > 0xffff then 1 else 0)"

text \<open>
  \<open>last8\<close> and \<open>cleaned\<close> are \<open>uint8_t\<close>; the comparison \<open>cleaned > 0xff\<close> is made
  on \<open>int\<close> after the integer promotion of \<open>cleaned\<close>, which is \<open>uint cleaned\<close>.
\<close>

definition auxcarry :: "16 word \<Rightarrow> 8 word" where
  "auxcarry answer =
     (let last8 = (ucast (answer AND 0xff) :: 8 word);
          cleaned = last8 AND 0x1f
      in if uint cleaned > 0xff then 1 else 0)"

definition auxcarry32 :: "32 word \<Rightarrow> 8 word" where
  "auxcarry32 answer = auxcarry (ucast (answer AND 0xffff))"

definition SET_Z_FLAG :: "8 word" where "SET_Z_FLAG = push_bit 7 1"
definition SET_S_FLAG :: "8 word" where "SET_S_FLAG = push_bit 6 1"
definition SET_P_FLAG :: "8 word" where "SET_P_FLAG = push_bit 5 1"
definition SET_CY_FLAG :: "8 word" where "SET_CY_FLAG = push_bit 4 1"
definition SET_AC_FLAG :: "8 word" where "SET_AC_FLAG = push_bit 3 1"
definition SET_ALL_FLAGS :: "8 word" where
  "SET_ALL_FLAGS = (SET_Z_FLAG OR SET_S_FLAG OR SET_P_FLAG OR SET_CY_FLAG OR SET_AC_FLAG)"

definition set_flags :: "State8080 \<Rightarrow> 16 word \<Rightarrow> 8 word \<Rightarrow> State8080" where
  "set_flags st answer flagstoset =
     (let cleaned = flagstoset AND 0xF8;
          st1 = (if cleaned AND SET_Z_FLAG \<noteq> 0
                 then st\<lparr>cc := (cc st)\<lparr>z := ucast (zero answer)\<rparr>\<rparr> else st);
          st2 = (if cleaned AND SET_S_FLAG \<noteq> 0
                 then st1\<lparr>cc := (cc st1)\<lparr>s := ucast (sign answer)\<rparr>\<rparr> else st1);
          st3 = (if cleaned AND SET_P_FLAG \<noteq> 0
                 then st2\<lparr>cc := (cc st2)\<lparr>p := ucast (parity answer)\<rparr>\<rparr> else st2);
          st4 = (if cleaned AND SET_CY_FLAG \<noteq> 0
                 then st3\<lparr>cc := (cc st3)\<lparr>cy := ucast (carry answer)\<rparr>\<rparr> else st3)
      in if cleaned AND SET_AC_FLAG \<noteq> 0
         then st4\<lparr>cc := (cc st4)\<lparr>ac := ucast (auxcarry answer)\<rparr>\<rparr> else st4)"

definition set_flags32 :: "State8080 \<Rightarrow> 32 word \<Rightarrow> 8 word \<Rightarrow> State8080" where
  "set_flags32 st answer flagstoset =
     (let cleaned = flagstoset AND 0xF8;
          left = (ucast (drop_bit 16 answer) :: 16 word);
          right = (ucast (answer AND 0xffff) :: 16 word);
          st1 = (if cleaned AND SET_Z_FLAG \<noteq> 0
                 then st\<lparr>cc := (cc st)\<lparr>z := (if zero left OR zero right = 0 then 1 else 0)\<rparr>\<rparr>
                 else st);
          st2 = (if cleaned AND SET_S_FLAG \<noteq> 0
                 then st1\<lparr>cc := (cc st1)\<lparr>s := ucast (sign32 answer)\<rparr>\<rparr> else st1);
          st3 = (if cleaned AND SET_P_FLAG \<noteq> 0
                 then st2\<lparr>cc := (cc st2)\<lparr>p := (if parity left XOR parity right = 0 then 1 else 0)\<rparr>\<rparr>
                 else st2);
          st4 = (if cleaned AND SET_CY_FLAG \<noteq> 0
                 then st3\<lparr>cc := (cc st3)\<lparr>cy := ucast (carry32 answer)\<rparr>\<rparr> else st3)
      in if cleaned AND SET_AC_FLAG \<noteq> 0
         then st4\<lparr>cc := (cc st4)\<lparr>ac := ucast (auxcarry32 answer)\<rparr>\<rparr> else st4)"

section \<open>Arithmetic on the accumulator (core.c, lines 238-316)\<close>

definition add_x :: "State8080 \<Rightarrow> 8 word \<Rightarrow> State8080" where
  "add_x st x =
     (let a16 = (ucast (a st) :: 16 word);
          answer = a16 + ucast x;
          st1 = set_flags st answer SET_ALL_FLAGS
      in st1\<lparr>a := ucast (answer AND 0xff)\<rparr>)"

definition adc_x :: "State8080 \<Rightarrow> 8 word \<Rightarrow> State8080" where
  "adc_x st x =
     (let a16 = (ucast (a st) :: 16 word);
          cy8 = (ucast (cy (cc st)) :: 8 word);
          answer = a16 + ucast cy8 + ucast x;
          st1 = set_flags st answer SET_ALL_FLAGS
      in st1\<lparr>a := ucast (answer AND 0xff)\<rparr>)"

definition sub_x :: "State8080 \<Rightarrow> 8 word \<Rightarrow> State8080" where
  "sub_x st x =
     (let a16 = (ucast (a st) :: 16 word);
          answer = a16 - ucast x;
          st1 = set_flags st answer SET_ALL_FLAGS
      in st1\<lparr>a := ucast (answer AND 0xff)\<rparr>)"

definition sbb_x :: "State8080 \<Rightarrow> 8 word \<Rightarrow> State8080" where
  "sbb_x st x =
     (let a16 = (ucast (a st) :: 16 word);
          cy8 = (ucast (cy (cc st)) :: 8 word);
          answer = a16 - ucast x - ucast cy8;
          st1 = set_flags st answer SET_ALL_FLAGS
      in st1\<lparr>a := ucast (answer AND 0xff)\<rparr>)"

definition ana_x :: "State8080 \<Rightarrow> 8 word \<Rightarrow> State8080" where
  "ana_x st x =
     (let answer = (ucast (a st) :: 16 word) AND ucast x;
          st1 = set_flags st answer SET_ALL_FLAGS
      in st1\<lparr>a := ucast (answer AND 0xff)\<rparr>)"

definition xra_x :: "State8080 \<Rightarrow> 8 word \<Rightarrow> State8080" where
  "xra_x st x =
     (let answer = (ucast (a st) :: 16 word) XOR ucast x;
          st1 = set_flags st answer SET_ALL_FLAGS
      in st1\<lparr>a := ucast (answer AND 0xff)\<rparr>)"

definition ora_x :: "State8080 \<Rightarrow> 8 word \<Rightarrow> State8080" where
  "ora_x st x =
     (let answer = (ucast (a st) :: 16 word) OR ucast x;
          st1 = set_flags st answer SET_ALL_FLAGS
      in st1\<lparr>a := ucast (answer AND 0xff)\<rparr>)"

section \<open>Register pairs and pointers (core.c, lines 318-435)\<close>

text \<open>
  The helpers below take \<open>uint8_t *\<close> arguments. Every call passes the address of a
  register field of the state, except \<open>inr_x\<close> and \<open>dcr_x\<close>, which are also called
  with the address of a memory cell. A pointer to a register is a \<open>reg\<close>; a pointer
  to either is a \<open>byte_ptr\<close>, and only a memory cell can be out of bounds.
\<close>

datatype reg = Reg_a | Reg_b | Reg_c | Reg_d | Reg_e | Reg_h | Reg_l

datatype byte_ptr = Reg reg | Mem nat

fun reg_get :: "State8080 \<Rightarrow> reg \<Rightarrow> 8 word" where
  "reg_get st Reg_a = a st"
| "reg_get st Reg_b = b st"
| "reg_get st Reg_c = c st"
| "reg_get st Reg_d = d st"
| "reg_get st Reg_e = e st"
| "reg_get st Reg_h = h st"
| "reg_get st Reg_l = l st"

fun reg_set :: "State8080 \<Rightarrow> reg \<Rightarrow> 8 word \<Rightarrow> State8080" where
  "reg_set st Reg_a v = st\<lparr>a := v\<rparr>"
| "reg_set st Reg_b v = st\<lparr>b := v\<rparr>"
| "reg_set st Reg_c v = st\<lparr>c := v\<rparr>"
| "reg_set st Reg_d v = st\<lparr>d := v\<rparr>"
| "reg_set st Reg_e v = st\<lparr>e := v\<rparr>"
| "reg_set st Reg_h v = st\<lparr>h := v\<rparr>"
| "reg_set st Reg_l v = st\<lparr>l := v\<rparr>"

fun deref :: "State8080 \<Rightarrow> byte_ptr \<Rightarrow> stop + 8 word" where
  "deref st (Reg r) = Inr (reg_get st r)"
| "deref st (Mem i) = mem_read st i"

fun assign :: "State8080 \<Rightarrow> byte_ptr \<Rightarrow> 8 word \<Rightarrow> stop + State8080" where
  "assign st (Reg r) v = Inr (reg_set st r v)"
| "assign st (Mem i) v = mem_write st i v"

definition get16bitval :: "8 word \<Rightarrow> 8 word \<Rightarrow> 16 word" where
  "get16bitval left right = push_bit 8 (ucast left) OR ucast right"

text \<open>
  \<open>summand + val\<close> is computed on \<open>int\<close> (both operands are \<open>uint16_t\<close>, so the sum
  cannot overflow) and stored in a \<open>uint32_t\<close>; the two stores keep the low eight bits
  of \<open>result >> 8\<close> and of \<open>result\<close>.
\<close>

definition tworeg_add :: "State8080 \<Rightarrow> reg \<Rightarrow> reg \<Rightarrow> 16 word \<Rightarrow> State8080 \<times> 32 word" where
  "tworeg_add st left_ptr right_ptr val =
     (let left = reg_get st left_ptr;
          right = reg_get st right_ptr;
          summand = get16bitval left right;
          result = (ucast summand :: 32 word) + ucast val;
          st1 = reg_set st left_ptr (ucast (drop_bit 8 result));
          st2 = reg_set st1 right_ptr (ucast (result AND 0xff))
      in (st2, result))"

definition inr_x :: "State8080 \<Rightarrow> byte_ptr \<Rightarrow> stop + State8080" where
  "inr_x st ptr =
     and_then (deref st ptr) (\<lambda>v.
       let answer = (ucast v :: 16 word) + 1;
           flags = SET_Z_FLAG OR SET_S_FLAG OR SET_P_FLAG OR SET_AC_FLAG;
           st1 = set_flags st answer flags
       in assign st1 ptr (ucast (answer AND 0xff)))"

definition dcr_x :: "State8080 \<Rightarrow> byte_ptr \<Rightarrow> stop + State8080" where
  "dcr_x st ptr =
     and_then (deref st ptr) (\<lambda>v.
       let answer = (ucast v :: 16 word) - 1;
           flags = SET_Z_FLAG OR SET_S_FLAG OR SET_P_FLAG OR SET_AC_FLAG;
           st1 = set_flags st answer flags
       in assign st1 ptr (ucast (answer AND 0xff)))"

definition inx_xy :: "State8080 \<Rightarrow> reg \<Rightarrow> reg \<Rightarrow> State8080" where
  "inx_xy st left_ptr right_ptr = fst (tworeg_add st left_ptr right_ptr 1)"

text \<open>The argument \<open>-1\<close> of \<open>tworeg_add\<close> is converted to \<open>uint16_t\<close>: 0xffff.\<close>

definition dcx_xy :: "State8080 \<Rightarrow> reg \<Rightarrow> reg \<Rightarrow> State8080" where
  "dcx_xy st left_ptr right_ptr = fst (tworeg_add st left_ptr right_ptr (- 1))"

definition dad_xy :: "State8080 \<Rightarrow> reg \<Rightarrow> reg \<Rightarrow> State8080" where
  "dad_xy st x y =
     (let val_to_add = get16bitval (reg_get st x) (reg_get st y);
          (st1, result) = tworeg_add st Reg_h Reg_l val_to_add
      in st1\<lparr>cc := (cc st1)\<lparr>cy := (if result > 0xffff then 1 else 0)\<rparr>\<rparr>)"

definition read_addr :: "State8080 \<Rightarrow> reg \<Rightarrow> reg \<Rightarrow> 16 word" where
  "read_addr st lptr rptr = get16bitval (reg_get st lptr) (reg_get st rptr)"

definition read_hl_addr :: "State8080 \<Rightarrow> 16 word" where
  "read_hl_addr st = read_addr st Reg_h Reg_l"

definition read_hl :: "State8080 \<Rightarrow> stop + 8 word" where
  "read_hl st = mem_read st (unat (read_hl_addr st))"

definition set_hl :: "State8080 \<Rightarrow> 8 word \<Rightarrow> stop + State8080" where
  "set_hl st val = mem_write st (unat (read_hl_addr st)) val"

section \<open>The dispatcher (core.c, lines 437-1514)\<close>

text \<open>
  The body of case 0x27 (DAA). \<open>least4\<close> is read once, before step 1, and is the value
  that is put back together with \<open>most4\<close> at the end.
\<close>

definition daa :: "State8080 \<Rightarrow> State8080" where
  "daa st =
     (let least4 = a st AND 0xf;
          st1 = (if least4 > 9 \<or> ac (cc st) \<noteq> 0
                 then (let answer = (ucast (a st) :: 16 word) + 6;
                           st' = set_flags st answer SET_ALL_FLAGS
                       in st'\<lparr>a := ucast (answer AND 0xff)\<rparr>)
                 else st);
          most4 = drop_bit 4 (a st1);
          most4' = (if most4 > 9 \<or> cy (cc st1) \<noteq> 0 then most4 + 6 else most4);
          answer = push_bit 4 (ucast most4' :: 16 word) OR ucast least4;
          st2 = set_flags st1 answer SET_ALL_FLAGS
      in st2\<lparr>a := ucast (answer AND 0xff)\<rparr>)"

text \<open>
  The \<open>switch\<close> of \<open>emulate_op\<close>, one branch for each case label, in the order of the
  source. \<open>opc\<close> is the index of the opcode byte in the memory block (the pointer
  \<open>opcode\<close> of the source, taken before the switch), so \<open>opcode[k]\<close> is the cell
  \<open>opc + k\<close>. Case 0x8e has no \<open>break\<close> and runs on into case 0x8f. The switch has a
  case for each of the 256 byte values and no default.
\<close>

definition emulate_op_switch :: "State8080 \<Rightarrow> nat \<Rightarrow> 8 word \<Rightarrow> stop + State8080" where
  "emulate_op_switch st opc opcode =
     (if opcode = 0x00 then Inr st
      else if opcode = 0x01 then and_then (mem_read st (opc + 1)) (\<lambda>byte2.
        and_then (mem_read st (opc + 2)) (\<lambda>byte3.
        Inr (st\<lparr>c := byte2, b := byte3, pc := pc st + 2\<rparr>)))
      else if opcode = 0x02 then mem_write st (unat (read_addr st Reg_b Reg_c)) (a st)
      else if opcode = 0x03 then Inr (inx_xy st Reg_b Reg_c)
      else if opcode = 0x04 then inr_x st (Reg Reg_b)
      else if opcode = 0x05 then dcr_x st (Reg Reg_b)
      else if opcode = 0x06 then and_then (mem_read st (opc + 1)) (\<lambda>byte2. Inr (st\<lparr>b := byte2, pc := pc st + 1\<rparr>))
      else if opcode = 0x07 then (let leftmost = drop_bit 7 (a st);
            st1 = st\<lparr>cc := (cc st)\<lparr>cy := ucast leftmost\<rparr>\<rparr>
        in Inr (st1\<lparr>a := push_bit 1 (a st1) OR leftmost\<rparr>))
      else if opcode = 0x08 then unused_opcode st
      else if opcode = 0x09 then Inr (dad_xy st Reg_b Reg_c)
      else if opcode = 0x0a then and_then (mem_read st (unat (read_addr st Reg_b Reg_c))) (\<lambda>memval. Inr (st\<lparr>a := memval\<rparr>))
      else if opcode = 0x0b then Inr (dcx_xy st Reg_b Reg_c)
      else if opcode = 0x0c then inr_x st (Reg Reg_c)
      else if opcode = 0x0d then dcr_x st (Reg Reg_c)
      else if opcode = 0x0e then and_then (mem_read st (opc + 1)) (\<lambda>byte2. Inr (st\<lparr>c := byte2, pc := pc st + 1\<rparr>))
      else if opcode = 0x0f then (let rightmost = a st AND 1;
            st1 = st\<lparr>cc := (cc st)\<lparr>cy := ucast rightmost\<rparr>\<rparr>
        in Inr (st1\<lparr>a := drop_bit 1 (a st1) OR push_bit 7 rightmost\<rparr>))
      else if opcode = 0x10 then unused_opcode st
      else if opcode = 0x11 then and_then (mem_read st (opc + 2)) (\<lambda>byte3.
        and_then (mem_read st (opc + 1)) (\<lambda>byte2.
        Inr (st\<lparr>d := byte3, e := byte2, pc := pc st + 2\<rparr>)))
      else if opcode = 0x12 then mem_write st (unat (read_addr st Reg_d Reg_e)) (a st)
      else if opcode = 0x13 then Inr (inx_xy st Reg_d Reg_e)
      else if opcode = 0x14 then inr_x st (Reg Reg_d)
      else if opcode = 0x15 then dcr_x st (Reg Reg_d)
      else if opcode = 0x16 then and_then (mem_read st (opc + 1)) (\<lambda>byte2. Inr (st\<lparr>d := byte2, pc := pc st + 1\<rparr>))
      else if opcode = 0x17 then (let leftmost = drop_bit 7 (a st);
            prev_cy = (ucast (cy (cc st)) :: 8 word);
            st1 = st\<lparr>cc := (cc st)\<lparr>cy := ucast leftmost\<rparr>\<rparr>
        in Inr (st1\<lparr>a := push_bit 1 (a st1) OR prev_cy\<rparr>))
      else if opcode = 0x18 then unused_opcode st
      else if opcode = 0x19 then Inr (dad_xy st Reg_d Reg_e)
      else if opcode = 0x1a then and_then (mem_read st (unat (read_addr st Reg_d Reg_e))) (\<lambda>memval. Inr (st\<lparr>a := memval\<rparr>))
      else if opcode = 0x1b then Inr (dcx_xy st Reg_d Reg_e)
      else if opcode = 0x1c then inr_x st (Reg Reg_e)
      else if opcode = 0x1d then dcr_x st (Reg Reg_e)
      else if opcode = 0x1e then and_then (mem_read st (opc + 1)) (\<lambda>byte2. Inr (st\<lparr>e := byte2, pc := pc st + 1\<rparr>))
      else if opcode = 0x1f then (let rightmost = a st AND 1;
            prev_cy = (ucast (cy (cc st)) :: 8 word);
            st1 = st\<lparr>cc := (cc st)\<lparr>cy := ucast rightmost\<rparr>\<rparr>
        in Inr (st1\<lparr>a := drop_bit 1 (a st1) OR push_bit 7 prev_cy\<rparr>))
      else if opcode = 0x20 then unused_opcode st
      else if opcode = 0x21 then and_then (mem_read st (opc + 2)) (\<lambda>byte3.
        and_then (mem_read st (opc + 1)) (\<lambda>byte2.
        Inr (st\<lparr>h := byte3, l := byte2, pc := pc st + 2\<rparr>)))
      else if opcode = 0x22 then and_then (mem_read st (opc + 1)) (\<lambda>byte2.
        and_then (mem_read st (opc + 2)) (\<lambda>byte3.
        let addr = get16bitval byte2 byte3 in
        and_then (mem_write st (unat addr) (l st)) (\<lambda>st1.
        and_then (mem_write st1 (unat addr + 1) (h st1)) (\<lambda>st2.
        Inr (st2\<lparr>pc := pc st2 + 2\<rparr>)))))
      else if opcode = 0x23 then Inr (inx_xy st Reg_h Reg_l)
      else if opcode = 0x24 then inr_x st (Reg Reg_h)
      else if opcode = 0x25 then dcr_x st (Reg Reg_h)
      else if opcode = 0x26 then and_then (mem_read st (opc + 1)) (\<lambda>byte2. Inr (st\<lparr>h := byte2, pc := pc st + 1\<rparr>))
      else if opcode = 0x27 then Inr (daa st)
      else if opcode = 0x28 then unused_opcode st
      else if opcode = 0x29 then Inr (dad_xy st Reg_h Reg_l)
      else if opcode = 0x2a then and_then (mem_read st (opc + 1)) (\<lambda>byte2.
        and_then (mem_read st (opc + 2)) (\<lambda>byte3.
        let addr = get16bitval byte2 byte3 in
        and_then (mem_read st (unat addr)) (\<lambda>val.
        and_then (mem_read st (unat addr + 1)) (\<lambda>val2.
        Inr (st\<lparr>l := val, h := val2, pc := pc st + 2\<rparr>)))))
      else if opcode = 0x2b then Inr (dcx_xy st Reg_h Reg_l)
      else if opcode = 0x2c then inr_x st (Reg Reg_l)
      else if opcode = 0x2d then dcr_x st (Reg Reg_l)
      else if opcode = 0x2e then and_then (mem_read st (opc + 1)) (\<lambda>byte2. Inr (st\<lparr>l := byte2, pc := pc st + 1\<rparr>))
      else if opcode = 0x2f then Inr (st\<lparr>a := NOT (a st)\<rparr>)
      else if opcode = 0x30 then unused_opcode st
      else if opcode = 0x31 then and_then (mem_read st (opc + 2)) (\<lambda>byte3.
        and_then (mem_read st (opc + 1)) (\<lambda>byte2.
        Inr (st\<lparr>sp := push_bit 8 (ucast byte3) OR ucast byte2, pc := pc st + 2\<rparr>)))
      else if opcode = 0x32 then and_then (mem_read st (opc + 1)) (\<lambda>byte2.
        and_then (mem_read st (opc + 2)) (\<lambda>byte3.
        let addr = get16bitval byte2 byte3 in
        and_then (mem_write st (unat addr) (a st)) (\<lambda>st1.
        Inr (st1\<lparr>pc := pc st1 + 2\<rparr>))))
      else if opcode = 0x33 then Inr (st\<lparr>sp := sp st + 1\<rparr>)
      else if opcode = 0x34 then inr_x st (Mem (unat (read_hl_addr st)))
      else if opcode = 0x35 then dcr_x st (Mem (unat (read_hl_addr st)))
      else if opcode = 0x36 then and_then (mem_read st (opc + 1)) (\<lambda>byte2.
        and_then (mem_write st (unat (read_hl_addr st)) byte2) (\<lambda>st1.
        Inr (st1\<lparr>pc := pc st1 + 1\<rparr>)))
      else if opcode = 0x37 then Inr (st\<lparr>cc := (cc st)\<lparr>cy := 1\<rparr>\<rparr>)
      else if opcode = 0x38 then unused_opcode st
      else if opcode = 0x39 then (let (st1, answer) = tworeg_add st Reg_h Reg_l (sp st)
        in Inr (st1\<lparr>cc := (cc st1)\<lparr>cy := (if answer > 0xffff then 1 else 0)\<rparr>\<rparr>))
      else if opcode = 0x3a then and_then (mem_read st (opc + 1)) (\<lambda>byte2.
        and_then (mem_read st (opc + 2)) (\<lambda>byte3.
        let addr = get16bitval byte2 byte3 in
        and_then (mem_read st (unat addr)) (\<lambda>val.
        Inr (st\<lparr>a := val, pc := pc st + 2\<rparr>))))
      else if opcode = 0x3b then Inr (st\<lparr>sp := sp st - 1\<rparr>)
      else if opcode = 0x3c then inr_x st (Reg Reg_a)
      else if opcode = 0x3d then dcr_x st (Reg Reg_a)
      else if opcode = 0x3e then and_then (mem_read st (opc + 1)) (\<lambda>byte2. Inr (st\<lparr>a := byte2, pc := pc st + 1\<rparr>))
      else if opcode = 0x3f then Inr (st\<lparr>cc := (cc st)\<lparr>cy := ucast (NOT (ucast (cy (cc st)) :: 32 word))\<rparr>\<rparr>)
      else if opcode = 0x40 then Inr (st\<lparr>b := b st\<rparr>)
      else if opcode = 0x41 then Inr (st\<lparr>b := c st\<rparr>)
      else if opcode = 0x42 then Inr (st\<lparr>b := d st\<rparr>)
      else if opcode = 0x43 then Inr (st\<lparr>b := e st\<rparr>)
      else if opcode = 0x44 then Inr (st\<lparr>b := h st\<rparr>)
      else if opcode = 0x45 then Inr (st\<lparr>b := l st\<rparr>)
      else if opcode = 0x46 then and_then (read_hl st) (\<lambda>m. Inr (st\<lparr>b := m\<rparr>))
      else if opcode = 0x47 then Inr (st\<lparr>b := a st\<rparr>)
      else if opcode = 0x48 then Inr (st\<lparr>c := b st\<rparr>)
      else if opcode = 0x49 then Inr (st\<lparr>c := c st\<rparr>)
      else if opcode = 0x4a then Inr (st\<lparr>c := d st\<rparr>)
      else if opcode = 0x4b then Inr (st\<lparr>c := e st\<rparr>)
      else if opcode = 0x4c then Inr (st\<lparr>c := h st\<rparr>)
      else if opcode = 0x4d then Inr (st\<lparr>c := l st\<rparr>)
      else if opcode = 0x4e then and_then (read_hl st) (\<lambda>m. Inr (st\<lparr>c := m\<rparr>))
      else if opcode = 0x4f then Inr (st\<lparr>c := a st\<rparr>)
      else if opcode = 0x50 then Inr (st\<lparr>d := b st\<rparr>)
      else if opcode = 0x51 then Inr (st\<lparr>d := c st\<rparr>)
      else if opcode = 0x52 then Inr (st\<lparr>d := d st\<rparr>)
      else if opcode = 0x53 then Inr (st\<lparr>d := e st\<rparr>)
      else if opcode = 0x54 then Inr (st\<lparr>d := h st\<rparr>)
      else if opcode = 0x55 then Inr (st\<lparr>d := l st\<rparr>)
      else if opcode = 0x56 then and_then (read_hl st) (\<lambda>m. Inr (st\<lparr>d := m\<rparr>))
      else if opcode = 0x57 then Inr (st\<lparr>d := a st\<rparr>)
      else if opcode = 0x58 then Inr (st\<lparr>e := b st\<rparr>)
      else if opcode = 0x59 then Inr (st\<lparr>e := c st\<rparr>)
      else if opcode = 0x5a then Inr (st\<lparr>e := d st\<rparr>)
      else if opcode = 0x5b then Inr (st\<lparr>e := e st\<rparr>)
      else if opcode = 0x5c then Inr (st\<lparr>e := h st\<rparr>)
      else if opcode = 0x5d then Inr (st\<lparr>e := l st\<rparr>)
      else if opcode = 0x5e then and_then (read_hl st) (\<lambda>m. Inr (st\<lparr>e := m\<rparr>))
      else if opcode = 0x5f then Inr (st\<lparr>e := a st\<rparr>)
      else if opcode = 0x60 then Inr (st\<lparr>h := b st\<rparr>)
      else if opcode = 0x61 then Inr (st\<lparr>h := c st\<rparr>)
      else if opcode = 0x62 then Inr (st\<lparr>h := d st\<rparr>)
      else if opcode = 0x63 then Inr (st\<lparr>h := e st\<rparr>)
      else if opcode = 0x64 then Inr (st\<lparr>h := h st\<rparr>)
      else if opcode = 0x65 then Inr (st\<lparr>h := l st\<rparr>)
      else if opcode = 0x66 then and_then (read_hl st) (\<lambda>m. Inr (st\<lparr>h := m\<rparr>))
      else if opcode = 0x67 then Inr (st\<lparr>h := a st\<rparr>)
      else if opcode = 0x68 then Inr (st\<lparr>l := b st\<rparr>)
      else if opcode = 0x69 then Inr (st\<lparr>l := c st\<rparr>)
      else if opcode = 0x6a then Inr (st\<lparr>l := d st\<rparr>)
      else if opcode = 0x6b then Inr (st\<lparr>l := e st\<rparr>)
      else if opcode = 0x6c then Inr (st\<lparr>l := h st\<rparr>)
      else if opcode = 0x6d then Inr (st\<lparr>l := l st\<rparr>)
      else if opcode = 0x6e then and_then (read_hl st) (\<lambda>m. Inr (st\<lparr>l := m\<rparr>))
      else if opcode = 0x6f then Inr (st\<lparr>l := a st\<rparr>)
      else if opcode = 0x70 then set_hl st (b st)
      else if opcode = 0x71 then set_hl st (c st)
      else if opcode = 0x72 then set_hl st (d st)
      else if opcode = 0x73 then set_hl st (e st)
      else if opcode = 0x74 then set_hl st (h st)
      else if opcode = 0x75 then set_hl st (l st)
      else if opcode = 0x76 then unimplemented_instr st
      else if opcode = 0x77 then set_hl st (a st)
      else if opcode = 0x78 then Inr (st\<lparr>a := b st\<rparr>)
      else if opcode = 0x79 then Inr (st\<lparr>a := c st\<rparr>)
      else if opcode = 0x7a then Inr (st\<lparr>a := d st\<rparr>)
      else if opcode = 0x7b then Inr (st\<lparr>a := e st\<rparr>)
      else if opcode = 0x7c then Inr (st\<lparr>a := h st\<rparr>)
      else if opcode = 0x7d then Inr (st\<lparr>a := l st\<rparr>)
      else if opcode = 0x7e then and_then (read_hl st) (\<lambda>m. Inr (st\<lparr>a := m\<rparr>))
      else if opcode = 0x7f then Inr (st\<lparr>a := a st\<rparr>)
      else if opcode = 0x80 then Inr (add_x st (b st))
      else if opcode = 0x81 then Inr (add_x st (c st))
      else if opcode = 0x82 then Inr (add_x st (d st))
      else if opcode = 0x83 then Inr (add_x st (e st))
      else if opcode = 0x84 then Inr (add_x st (h st))
      else if opcode = 0x85 then Inr (add_x st (l st))
      else if opcode = 0x86 then and_then (read_hl st) (\<lambda>m. Inr (add_x st m))
      else if opcode = 0x87 then Inr (add_x st (a st))
      else if opcode = 0x88 then Inr (adc_x st (b st))
      else if opcode = 0x89 then Inr (adc_x st (c st))
      else if opcode = 0x8a then Inr (adc_x st (d st))
      else if opcode = 0x8b then Inr (adc_x st (e st))
      else if opcode = 0x8c then Inr (adc_x st (h st))
      else if opcode = 0x8d then Inr (adc_x st (l st))
      else if opcode = 0x8e then and_then (read_hl st) (\<lambda>m.
        let st1 = adc_x st m in Inr (adc_x st1 (a st1)))
      else if opcode = 0x8f then Inr (adc_x st (a st))
      else if opcode = 0x90 then Inr (sub_x st (b st))
      else if opcode = 0x91 then Inr (sub_x st (c st))
      else if opcode = 0x92 then Inr (sub_x st (d st))
      else if opcode = 0x93 then Inr (sub_x st (e st))
      else if opcode = 0x94 then Inr (sub_x st (h st))
      else if opcode = 0x95 then Inr (sub_x st (l st))
      else if opcode = 0x96 then and_then (read_hl st) (\<lambda>m. Inr (sub_x st m))
      else if opcode = 0x97 then Inr (sub_x st (a st))
      else if opcode = 0x98 then Inr (sbb_x st (b st))
      else if opcode = 0x99 then Inr (sbb_x st (c st))
      else if opcode = 0x9a then Inr (sbb_x st (d st))
      else if opcode = 0x9b then Inr (sbb_x st (e st))
      else if opcode = 0x9c then Inr (sbb_x st (h st))
      else if opcode = 0x9d then Inr (sbb_x st (l st))
      else if opcode = 0x9e then and_then (read_hl st) (\<lambda>m. Inr (sbb_x st m))
      else if opcode = 0x9f then Inr (sbb_x st (a st))
      else if opcode = 0xa0 then Inr (ana_x st (b st))
      else if opcode = 0xa1 then Inr (ana_x st (c st))
      else if opcode = 0xa2 then Inr (ana_x st (d st))
      else if opcode = 0xa3 then Inr (ana_x st (e st))
      else if opcode = 0xa4 then Inr (ana_x st (h st))
      else if opcode = 0xa5 then Inr (ana_x st (l st))
      else if opcode = 0xa6 then and_then (read_hl st) (\<lambda>m. Inr (ana_x st m))
      else if opcode = 0xa7 then Inr (ana_x st (a st))
      else if opcode = 0xa8 then Inr (xra_x st (b st))
      else if opcode = 0xa9 then Inr (xra_x st (c st))
      else if opcode = 0xaa then Inr (xra_x st (d st))
      else if opcode = 0xab then Inr (xra_x st (e st))
      else if opcode = 0xac then Inr (xra_x st (h st))
      else if opcode = 0xad then Inr (xra_x st (l st))
      else if opcode = 0xae then and_then (read_hl st) (\<lambda>m. Inr (xra_x st m))
      else if opcode = 0xaf then Inr (xra_x st (a st))
      else if opcode = 0xb0 then Inr (ora_x st (b st))
      else if opcode = 0xb1 then Inr (ora_x st (c st))
      else if opcode = 0xb2 then Inr (ora_x st (d st))
      else if opcode = 0xb3 then Inr (ora_x st (e st))
      else if opcode = 0xb4 then Inr (ora_x st (h st))
      else if opcode = 0xb5 then Inr (ora_x st (l st))
      else if opcode = 0xb6 then and_then (read_hl st) (\<lambda>m. Inr (ora_x st m))
      else if opcode = 0xb7 then Inr (ora_x st (a st))
      else if opcode = 0xb8 then unimplemented_instr st
      else if opcode = 0xb9 then unimplemented_instr st
      else if opcode = 0xba then unimplemented_instr st
      else if opcode = 0xbb then unimplemented_instr st
      else if opcode = 0xbc then unimplemented_instr st
      else if opcode = 0xbd then unimplemented_instr st
      else if opcode = 0xbe then unimplemented_instr st
      else if opcode = 0xbf then unimplemented_instr st
      else if opcode = 0xc0 then unimplemented_instr st
      else if opcode = 0xc1 then unimplemented_instr st
      else if opcode = 0xc2 then (if z (cc st) = 0
         then and_then (mem_read st (opc + 2)) (\<lambda>byte3.
              and_then (mem_read st (opc + 1)) (\<lambda>byte2.
              Inr (st\<lparr>pc := push_bit 8 (ucast byte3) OR ucast byte2\<rparr>)))
         else Inr (st\<lparr>pc := pc st + 2\<rparr>))
      else if opcode = 0xc3 then and_then (mem_read st (opc + 2)) (\<lambda>byte3.
        and_then (mem_read st (opc + 1)) (\<lambda>byte2.
        Inr (st\<lparr>pc := push_bit 8 (ucast byte3) OR ucast byte2\<rparr>)))
      else if opcode = 0xc4 then unimplemented_instr st
      else if opcode = 0xc5 then unimplemented_instr st
      else if opcode = 0xc6 then and_then (mem_read st (opc + 1)) (\<lambda>data.
        let answer = (ucast (a st) :: 16 word) + ucast data;
            st1 = set_flags st answer SET_ALL_FLAGS
        in Inr (st1\<lparr>pc := pc st1 + 1\<rparr>))
      else if opcode = 0xc7 then unimplemented_instr st
      else if opcode = 0xc8 then unimplemented_instr st
      else if opcode = 0xc9 then unimplemented_instr st
      else if opcode = 0xca then unimplemented_instr st
      else if opcode = 0xcb then unimplemented_instr st
      else if opcode = 0xcc then unimplemented_instr st
      else if opcode = 0xcd then unimplemented_instr st
      else if opcode = 0xce then and_then (mem_read st (opc + 1)) (\<lambda>data.
        let answer = (ucast (a st) + ucast data + ucast (cy (cc st)) :: 16 word);
            st1 = set_flags st answer SET_ALL_FLAGS;
            st2 = st1\<lparr>a := ucast (answer AND 0xff)\<rparr>
        in Inr (st2\<lparr>pc := pc st2 + 1\<rparr>))
      else if opcode = 0xcf then unimplemented_instr st
      else if opcode = 0xd0 then unimplemented_instr st
      else if opcode = 0xd1 then unimplemented_instr st
      else if opcode = 0xd2 then unimplemented_instr st
      else if opcode = 0xd3 then unimplemented_instr st
      else if opcode = 0xd4 then unimplemented_instr st
      else if opcode = 0xd5 then unimplemented_instr st
      else if opcode = 0xd6 then and_then (mem_read st (opc + 1)) (\<lambda>data.
        let answer = (ucast (a st) - ucast data :: 16 word);
            st1 = set_flags st answer SET_ALL_FLAGS;
            st2 = st1\<lparr>a := ucast (answer AND 0xff)\<rparr>
        in Inr (st2\<lparr>pc := pc st2 + 1\<rparr>))
      else if opcode = 0xd7 then unimplemented_instr st
      else if opcode = 0xd8 then unimplemented_instr st
      else if opcode = 0xd9 then unimplemented_instr st
      else if opcode = 0xda then unimplemented_instr st
      else if opcode = 0xdb then unimplemented_instr st
      else if opcode = 0xdc then unimplemented_instr st
      else if opcode = 0xdd then unimplemented_instr st
      else if opcode = 0xde then unimplemented_instr st
      else if opcode = 0xdf then unimplemented_instr st
      else if opcode = 0xe0 then unimplemented_instr st
      else if opcode = 0xe1 then unimplemented_instr st
      else if opcode = 0xe2 then unimplemented_instr st
      else if opcode = 0xe3 then unimplemented_instr st
      else if opcode = 0xe4 then unimplemented_instr st
      else if opcode = 0xe5 then unimplemented_instr st
      else if opcode = 0xe6 then and_then (mem_read st (opc + 1)) (\<lambda>data.
        let answer = (ucast (a st) AND ucast data :: 16 word);
            st1 = set_flags st answer SET_ALL_FLAGS;
            st2 = st1\<lparr>a := ucast (answer AND 0xff)\<rparr>
        in Inr (st2\<lparr>pc := pc st2 + 1\<rparr>))
      else if opcode = 0xe7 then unimplemented_instr st
      else if opcode = 0xe8 then unimplemented_instr st
      else if opcode = 0xe9 then unimplemented_instr st
      else if opcode = 0xea then unimplemented_instr st
      else if opcode = 0xeb then unimplemented_instr st
      else if opcode = 0xec then unimplemented_instr st
      else if opcode = 0xed then unimplemented_instr st
      else if opcode = 0xee then unimplemented_instr st
      else if opcode = 0xef then unimplemented_instr st
      else if opcode = 0xf0 then unimplemented_instr st
      else if opcode = 0xf1 then unimplemented_instr st
      else if opcode = 0xf2 then unimplemented_instr st
      else if opcode = 0xf3 then unimplemented_instr st
      else if opcode = 0xf4 then unimplemented_instr st
      else if opcode = 0xf5 then unimplemented_instr st
      else if opcode = 0xf6 then and_then (mem_read st (opc + 1)) (\<lambda>data.
        let answer = (ucast (a st) OR ucast data :: 16 word);
            st1 = set_flags st answer SET_ALL_FLAGS;
            st2 = st1\<lparr>a := ucast (answer AND 0xff)\<rparr>
        in Inr (st2\<lparr>pc := pc st2 + 1\<rparr>))
      else if opcode = 0xf7 then unimplemented_instr st
      else if opcode = 0xf8 then unimplemented_instr st
      else if opcode = 0xf9 then unimplemented_instr st
      else if opcode = 0xfa then unimplemented_instr st
      else if opcode = 0xfb then unimplemented_instr st
      else if opcode = 0xfc then unimplemented_instr st
      else if opcode = 0xfd then unimplemented_instr st
      else if opcode = 0xfe then unimplemented_instr st
      else if opcode = 0xff then unimplemented_instr st
      else Inr st)"


text \<open>
  One call of \<open>emulate_op\<close>: fetch the opcode at \<open>pc\<close>, run its case, and add one to
  \<open>pc\<close> after the switch.
\<close>

definition emulate_op :: "State8080 \<Rightarrow> stop + State8080" where
  "emulate_op st =
     and_then (mem_read st (unat (pc st))) (\<lambda>opcode.
     and_then (emulate_op_switch st (unat (pc st)) opcode) (\<lambda>st1.
     Inr (st1\<lparr>pc := pc st1 + 1\<rparr>)))"

section \<open>Opcode classes and start states\<close>

text \<open>The case labels of \<open>emulate_op\<close> whose body is \<open>unused_opcode(state)\<close>.\<close>

definition unused_opcodes :: "8 word list" where
  "unused_opcodes = [0x08, 0x10, 0x18, 0x20, 0x28, 0x30, 0x38]"

text \<open>
  The case labels whose body is \<open>unimplemented_instr(state)\<close>: HLT (0x76) and the
  opcodes from 0xb8 on that have no behaviour yet.
\<close>

definition unimplemented_opcodes :: "8 word list" where
  "unimplemented_opcodes =
     [0x76, 0xb8, 0xb9, 0xba, 0xbb, 0xbc, 0xbd, 0xbe, 0xbf, 0xc0, 0xc1, 0xc4, 0xc5, 0xc7,
      0xc8, 0xc9, 0xca, 0xcb, 0xcc, 0xcd, 0xcf, 0xd0, 0xd1, 0xd2, 0xd3, 0xd4, 0xd5, 0xd7,
      0xd8, 0xd9, 0xda, 0xdb, 0xdc, 0xdd, 0xde, 0xdf, 0xe0, 0xe1, 0xe2, 0xe3, 0xe4, 0xe5,
      0xe7, 0xe8, 0xe9, 0xea, 0xeb, 0xec, 0xed, 0xee, 0xef, 0xf0, 0xf1, 0xf2, 0xf3, 0xf4,
      0xf5, 0xf7, 0xf8, 0xf9, 0xfa, 0xfb, 0xfc, 0xfd, 0xfe, 0xff]"

text \<open>
  INR and DCR of B, C, D, E, H, L, the HL-addressed memory cell (0x34, 0x35) and A: the
  cases that call \<open>inr_x\<close> or \<open>dcr_x\<close>.
\<close>

definition inr_dcr_opcodes :: "8 word list" where
  "inr_dcr_opcodes =
     [0x04, 0x05, 0x0c, 0x0d, 0x14, 0x15, 0x1c, 0x1d, 0x24, 0x25, 0x2c, 0x2d, 0x34, 0x35,
      0x3c, 0x3d]"

text \<open>
  INX and DCX of the pairs BC, DE, HL (the cases that call \<open>inx_xy\<close> or \<open>dcx_xy\<close>) and
  of SP (0x33, 0x3b).
\<close>

definition inx_dcx_opcodes :: "8 word list" where
  "inx_dcx_opcodes = [0x03, 0x0b, 0x13, 0x1b, 0x23, 0x2b, 0x33, 0x3b]"

text \<open>MOV B,B; MOV C,C; MOV D,D; MOV E,E; MOV H,H; MOV L,L; MOV A,A.\<close>

definition self_move_opcodes :: "8 word list" where
  "self_move_opcodes = [0x40, 0x49, 0x52, 0x5b, 0x64, 0x6d, 0x7f]"

text \<open>
  The state \<open>load_and_run\<close> (emu.c) starts from: every register, flag, \<open>sp\<close>, \<open>pc\<close> and
  \<open>int_enable\<close> zero, over a memory block that holds the given bytes.
\<close>

definition zeroed_state :: "8 word list \<Rightarrow> State8080" where
  "zeroed_state mem =
     \<lparr>a = 0, b = 0, c = 0, d = 0, e = 0, h = 0, l = 0, sp = 0, pc = 0, memory = mem,
      cc = \<lparr>z = 0, s = 0, p = 0, cy = 0, ac = 0, pad = 0\<rparr>, int_enable = 0\<rparr>"

section \<open>Dispatch lemmas\<close>

lemma emulate_op_fetch:
  "unat (pc st) < length (memory st) \<Longrightarrow>
   emulate_op st =
     and_then (emulate_op_switch st (unat (pc st)) (memory st ! unat (pc st)))
       (\<lambda>st1. Inr (st1\<lparr>pc := pc st1 + 1\<rparr>))"
  by (simp add: emulate_op_def mem_read_def and_then_def)

lemma switch_jmp:
  "emulate_op_switch st opc 0xC3 =
     and_then (mem_read st (opc + 2)) (\<lambda>byte3.
     and_then (mem_read st (opc + 1)) (\<lambda>byte2.
     Inr (st\<lparr>pc := push_bit 8 (ucast byte3) OR ucast byte2\<rparr>)))"
  by (simp add: emulate_op_switch_def)

lemma switch_jnz:
  "emulate_op_switch st opc 0xC2 =
     (if z (cc st) = 0
      then and_then (mem_read st (opc + 2)) (\<lambda>byte3.
           and_then (mem_read st (opc + 1)) (\<lambda>byte2.
           Inr (st\<lparr>pc := push_bit 8 (ucast byte3) OR ucast byte2\<rparr>)))
      else Inr (st\<lparr>pc := pc st + 2\<rparr>))"
  by (simp add: emulate_op_switch_def)

lemma switch_adi:
  "emulate_op_switch st opc 0xC6 =
     and_then (mem_read st (opc + 1)) (\<lambda>data.
       let answer = (ucast (a st) :: 16 word) + ucast data;
           st1 = set_flags st answer SET_ALL_FLAGS
       in Inr (st1\<lparr>pc := pc st1 + 1\<rparr>))"
  by (simp add: emulate_op_switch_def)

lemma switch_adc_m:
  "emulate_op_switch st opc 0x8E =
     and_then (read_hl st) (\<lambda>m. let st1 = adc_x st m in Inr (adc_x st1 (a st1)))"
  by (simp add: emulate_op_switch_def)

lemma switch_daa: "emulate_op_switch st opc 0x27 = Inr (daa st)"
  by (simp add: emulate_op_switch_def)

section \<open>The auxiliary-carry computation\<close>

lemma uint8_le_255: "uint (w :: 8 word) \<le> 0xff"
  using uint_bounded [of w] by simp

lemma auxcarry_zero: "auxcarry answer = 0"
  by (simp add: auxcarry_def Let_def not_less uint8_le_255)

lemma cleaned_ac:
  "(flagstoset AND 0xF8) AND SET_AC_FLAG = flagstoset AND (SET_AC_FLAG :: 8 word)"
  by (simp add: SET_AC_FLAG_def and.assoc)

lemma set_flags_ac:
  "flagstoset AND SET_AC_FLAG \<noteq> 0 \<Longrightarrow> ac (cc (set_flags st answer flagstoset)) = 0"
  by (simp add: set_flags_def Let_def cleaned_ac auxcarry_zero)

lemma set_flags32_ac:
  "flagstoset AND SET_AC_FLAG \<noteq> 0 \<Longrightarrow> ac (cc (set_flags32 st answer flagstoset)) = 0"
  by (simp add: set_flags32_def Let_def cleaned_ac auxcarry32_def auxcarry_zero)

lemmas flag_bits = SET_ALL_FLAGS_def SET_Z_FLAG_def SET_S_FLAG_def SET_P_FLAG_def
  SET_CY_FLAG_def SET_AC_FLAG_def

lemmas flag_values = zero_def sign_def parity_def carry_def auxcarry_zero

text \<open>
  Claim C6. \<open>auxcarry\<close> returns 0 for every 16-bit input (and \<open>auxcarry32\<close> for every
  32-bit input): the value it compares with 0xff is a \<open>uint8_t\<close>. So every call of
  \<open>set_flags\<close> or \<open>set_flags32\<close> whose mask selects AC leaves the AC flag 0, whatever
  the answer and whatever the flag was before.
\<close>

theorem auxcarry_never_set:
  "auxcarry answer = 0 \<and> auxcarry32 answer32 = 0 \<and>
   (flagstoset AND SET_AC_FLAG \<noteq> 0 \<longrightarrow>
      ac (cc (set_flags st answer flagstoset)) = 0 \<and>
      ac (cc (set_flags32 st answer32 flagstoset)) = 0)"
  by (simp add: auxcarry_zero auxcarry32_def set_flags_ac set_flags32_ac)

text \<open>
  The mask \<open>SET_ALL_FLAGS\<close> selects AC; on the answer 0x1f, in a state whose AC flag is
  1, the flag is cleared.
\<close>

theorem auxcarry_never_set_witness:
  "SET_ALL_FLAGS AND SET_AC_FLAG \<noteq> 0 \<and>
   auxcarry 0x1f = 0 \<and>
   ac (cc (set_flags
            ((zeroed_state [])\<lparr>cc := \<lparr>z = 0, s = 0, p = 0, cy = 0, ac = 1, pad = 0\<rparr>\<rparr>)
            0x1f SET_ALL_FLAGS)) = 0"
proof -
  have nz: "SET_ALL_FLAGS AND SET_AC_FLAG \<noteq> 0"
    by (simp add: flag_bits)
  show ?thesis
    using nz auxcarry_never_set [of "0x1f" 0 SET_ALL_FLAGS
        "(zeroed_state [])\<lparr>cc := \<lparr>z = 0, s = 0, p = 0, cy = 0, ac = 1, pad = 0\<rparr>\<rparr>"]
    by simp
qed

section \<open>Jumps\<close>

text \<open>
  What JMP does in every state in which the opcode and its two operand bytes lie inside
  the memory block: \<open>pc\<close> is set to the address made of the two bytes (the byte at
  \<open>pc + 2\<close> is the high half), and the increment after the switch then adds one.
\<close>

lemma jmp_pc:
  assumes "unat (pc st) + 2 < length (memory st)"
      and "memory st ! unat (pc st) = 0xC3"
  shows "emulate_op st =
           Inr (st\<lparr>pc := (push_bit 8 (ucast (memory st ! (unat (pc st) + 2)))
                            OR ucast (memory st ! (unat (pc st) + 1))) + 1\<rparr>)"
  using assms by (simp add: emulate_op_fetch switch_jmp mem_read_def and_then_def)

text \<open>
  Claim C1, at the program 0xC3 0x00 0x01 (JMP 0x0100) loaded at address 0 of a zeroed
  state: the claim asks for \<open>pc = 0x0100\<close> when \<open>emulate_op\<close> returns; the code
  returns with \<open>pc = 0x0101\<close>, because the \<open>pc += 1\<close> after the switch also runs
  after a jump.
\<close>

theorem jmp_0100_lands_on_0101:
  "emulate_op (zeroed_state [0xC3, 0x00, 0x01]) =
     Inr ((zeroed_state [0xC3, 0x00, 0x01])\<lparr>pc := 0x0101\<rparr>)"
  by (simp add: emulate_op_fetch switch_jmp zeroed_state_def mem_read_def and_then_def)

text \<open>
  What JNZ does: with Zero set the two operand bytes are not read and \<open>pc\<close> ends three
  bytes on; with Zero clear it ends one past the address made of the operand bytes.
\<close>

lemma jnz_not_taken:
  assumes "unat (pc st) < length (memory st)"
      and "memory st ! unat (pc st) = 0xC2"
      and "z (cc st) \<noteq> 0"
  shows "emulate_op st = Inr (st\<lparr>pc := pc st + 3\<rparr>)"
  using assms by (simp add: emulate_op_fetch switch_jnz and_then_def)

lemma jnz_taken:
  assumes "unat (pc st) + 2 < length (memory st)"
      and "memory st ! unat (pc st) = 0xC2"
      and "z (cc st) = 0"
  shows "emulate_op st =
           Inr (st\<lparr>pc := (push_bit 8 (ucast (memory st ! (unat (pc st) + 2)))
                            OR ucast (memory st ! (unat (pc st) + 1))) + 1\<rparr>)"
  using assms by (simp add: emulate_op_fetch switch_jnz mem_read_def and_then_def)

text \<open>
  Claim C5, at the program 0xC2 0x00 0x01 (JNZ 0x0100) loaded at address 0 of a zeroed
  state, where Zero is 0: the claim asks for \<open>pc\<close> equal to the decoded target 0x0100;
  the code returns with \<open>pc = 0x0101\<close>. (The half of the claim about Zero = 1 holds:
  \<open>jnz_not_taken\<close>.)
\<close>

theorem jnz_taken_lands_on_0101:
  "emulate_op (zeroed_state [0xC2, 0x00, 0x01]) =
     Inr ((zeroed_state [0xC2, 0x00, 0x01])\<lparr>pc := 0x0101\<rparr>)"
  by (simp add: emulate_op_fetch switch_jnz zeroed_state_def mem_read_def and_then_def)

section \<open>Arithmetic opcodes\<close>

text \<open>
  What ADI (0xC6) does in every state in which the opcode and its operand lie inside the
  memory block: the flags are set from the 16-bit sum, \<open>pc\<close> moves on by two, and no
  register is written.
\<close>

lemma adi_result:
  assumes "unat (pc st) + 1 < length (memory st)"
      and "memory st ! unat (pc st) = 0xC6"
  shows "emulate_op st =
           Inr ((set_flags st (ucast (a st) + ucast (memory st ! (unat (pc st) + 1)))
                   SET_ALL_FLAGS)\<lparr>pc := pc st + 2\<rparr>)"
  using assms
  by (simp add: emulate_op_fetch switch_adi mem_read_def and_then_def Let_def
      set_flags_def flag_bits)

text \<open>
  Claim C2, at the program 0xC6 0x01 (ADI 1) loaded at address 0 of a zeroed state with
  A = 1: the claim asks for A = 2 when \<open>emulate_op\<close> returns; the code returns with
  A = 1. The flags are those of the sum 2.
\<close>

theorem adi_leaves_accumulator:
  "emulate_op ((zeroed_state [0xC6, 0x01])\<lparr>a := 1\<rparr>) =
     Inr ((zeroed_state [0xC6, 0x01])
            \<lparr>a := 1, pc := 2, cc := \<lparr>z = 0, s = 1, p = 1, cy = 0, ac = 0, pad = 0\<rparr>\<rparr>)"
  by (simp add: emulate_op_fetch switch_adi zeroed_state_def mem_read_def and_then_def
      set_flags_def flag_bits flag_values)

text \<open>
  Claim C3, at the program 0x8E 0x01 loaded at address 0 of a zeroed state with A = 1,
  H = 0, L = 1 and CY = 0, so that the HL-addressed cell holds 1: the claim asks for
  A = 1 + 1 + 0 = 2; the code returns with A = 4, because case 0x8e runs on into case
  0x8f and adds A (then 2) with carry to itself.
\<close>

theorem adc_m_adds_twice:
  "emulate_op ((zeroed_state [0x8E, 0x01])\<lparr>a := 1, l := 1\<rparr>) =
     Inr ((zeroed_state [0x8E, 0x01])
            \<lparr>a := 4, l := 1, pc := 1,
             cc := \<lparr>z = 0, s = 1, p = 1, cy = 0, ac = 0, pad = 0\<rparr>\<rparr>)"
  by (simp add: emulate_op_fetch switch_adc_m zeroed_state_def mem_read_def and_then_def
      read_hl_def read_hl_addr_def read_addr_def get16bitval_def adc_x_def
      set_flags_def flag_bits flag_values)

text \<open>
  Claim C4, at the program 0x27 (DAA) loaded at address 0 of a zeroed state with
  A = 0x9B, so AC = 0 and CY = 0: the claim asks for A = 0x01 and CY = 1; the code
  returns with A = 0x0B and CY = 1. Step 1 makes A 0xA1, but the low nibble put back at
  the end is the one read before step 1 (0xB).
\<close>

theorem daa_9b_gives_0b:
  "emulate_op ((zeroed_state [0x27])\<lparr>a := 0x9B\<rparr>) =
     Inr ((zeroed_state [0x27])
            \<lparr>a := 0x0B, pc := 1, cc := \<lparr>z = 0, s = 1, p = 1, cy = 1, ac = 0, pad = 0\<rparr>\<rparr>)"
  by (simp add: emulate_op_fetch switch_daa zeroed_state_def daa_def
      set_flags_def flag_bits flag_values and_then_def)

section \<open>The fatal path\<close>

lemma switch_unimplemented:
  "opcode \<in> set unimplemented_opcodes \<Longrightarrow>
   emulate_op_switch st opc opcode = unimplemented_instr st"
  unfolding unimplemented_opcodes_def set_simps insert_iff empty_iff
  by (elim disjE FalseE; simp add: emulate_op_switch_def)

lemma switch_unused:
  "opcode \<in> set unused_opcodes \<Longrightarrow> emulate_op_switch st opc opcode = unused_opcode st"
  unfolding unused_opcodes_def set_simps insert_iff empty_iff
  by (elim disjE FalseE; simp add: emulate_op_switch_def)

text \<open>
  Claim C7. In every state whose \<open>pc\<close> lies inside the memory block and whose current
  opcode is one that the switch sends to \<open>unimplemented_instr\<close> (HLT 0x76 among them) or
  to \<open>unused_opcode\<close>, \<open>emulate_op\<close> does not return: the process exits, and the state
  at the exit is the starting state itself, with every register, flag, \<open>sp\<close>, \<open>pc\<close>
  and memory cell as it was.
\<close>

theorem fatal_path_leaves_state:
  assumes "unat (pc st) < length (memory st)"
  shows "(memory st ! unat (pc st) \<in> set unimplemented_opcodes \<longrightarrow>
            emulate_op st = Inl (Exit_unimplemented st)) \<and>
         (memory st ! unat (pc st) \<in> set unused_opcodes \<longrightarrow>
            emulate_op st = Inl (Exit_unused (memory st ! unat (pc st)) st))"
  using assms
  by (simp add: emulate_op_fetch switch_unimplemented switch_unused unimplemented_instr_def
      unused_opcode_def mem_read_def and_then_def)

text \<open>HLT at address 0 of a zeroed state, and the unused opcode 0x08 at address 1.\<close>

theorem fatal_path_leaves_state_witness:
  "emulate_op (zeroed_state [0x76]) = Inl (Exit_unimplemented (zeroed_state [0x76])) \<and>
   emulate_op ((zeroed_state [0x00, 0x08])\<lparr>pc := 1\<rparr>) =
     Inl (Exit_unused 0x08 ((zeroed_state [0x00, 0x08])\<lparr>pc := 1\<rparr>))"
  using fatal_path_leaves_state [of "zeroed_state [0x76]"]
    fatal_path_leaves_state [of "(zeroed_state [0x00, 0x08])\<lparr>pc := 1\<rparr>"]
  by (simp add: zeroed_state_def unimplemented_opcodes_def unused_opcodes_def)

section \<open>Increment and decrement\<close>

lemma set_flags_zspac:
  "set_flags st answer (SET_Z_FLAG OR SET_S_FLAG OR SET_P_FLAG OR SET_AC_FLAG) =
     st\<lparr>cc := (cc st)\<lparr>z := ucast (zero answer), s := ucast (sign answer),
                       p := ucast (parity answer), ac := ucast (auxcarry answer)\<rparr>\<rparr>"
  by (simp add: set_flags_def flag_bits Let_def)

lemma cc_reg_set: "cc (reg_set st r v) = cc st"
  by (cases r) simp_all

lemma cc_assign: "assign st ptr v = Inr st' \<Longrightarrow> cc st' = cc st"
  by (cases ptr) (auto simp add: cc_reg_set mem_write_def split: if_splits)

lemma inr_x_cc:
  assumes "inr_x st ptr = Inr st'"
  shows "\<exists>answer. cc st' = (cc st)\<lparr>z := ucast (zero answer), s := ucast (sign answer),
                       p := ucast (parity answer), ac := ucast (auxcarry answer)\<rparr>"
proof (cases "deref st ptr")
  case (Inl f)
  with assms show ?thesis by (simp add: inr_x_def and_then_def)
next
  case (Inr v)
  let ?answer = "(ucast v :: 16 word) + 1"
  let ?st1 = "set_flags st ?answer (SET_Z_FLAG OR SET_S_FLAG OR SET_P_FLAG OR SET_AC_FLAG)"
  from assms Inr have "assign ?st1 ptr (ucast (?answer AND 0xff)) = Inr st'"
    by (simp add: inr_x_def and_then_def Let_def)
  then have "cc st' = cc ?st1" by (rule cc_assign)
  then show ?thesis by (auto simp add: set_flags_zspac)
qed

lemma dcr_x_cc:
  assumes "dcr_x st ptr = Inr st'"
  shows "\<exists>answer. cc st' = (cc st)\<lparr>z := ucast (zero answer), s := ucast (sign answer),
                       p := ucast (parity answer), ac := ucast (auxcarry answer)\<rparr>"
proof (cases "deref st ptr")
  case (Inl f)
  with assms show ?thesis by (simp add: dcr_x_def and_then_def)
next
  case (Inr v)
  let ?answer = "(ucast v :: 16 word) - 1"
  let ?st1 = "set_flags st ?answer (SET_Z_FLAG OR SET_S_FLAG OR SET_P_FLAG OR SET_AC_FLAG)"
  from assms Inr have "assign ?st1 ptr (ucast (?answer AND 0xff)) = Inr st'"
    by (simp add: dcr_x_def and_then_def Let_def)
  then have "cc st' = cc ?st1" by (rule cc_assign)
  then show ?thesis by (auto simp add: set_flags_zspac)
qed

lemma switch_inr_dcr:
  "opcode \<in> set inr_dcr_opcodes \<Longrightarrow>
   \<exists>ptr. emulate_op_switch st opc opcode = inr_x st ptr \<or>
         emulate_op_switch st opc opcode = dcr_x st ptr"
  unfolding inr_dcr_opcodes_def set_simps insert_iff empty_iff
  by (elim disjE FalseE; simp add: emulate_op_switch_def; blast)

lemma cc_tworeg_add: "cc (fst (tworeg_add st r1 r2 val)) = cc st"
  by (simp add: tworeg_add_def Let_def cc_reg_set)

lemma switch_inx_dcx:
  "opcode \<in> set inx_dcx_opcodes \<Longrightarrow>
   \<exists>st1. emulate_op_switch st opc opcode = Inr st1 \<and> cc st1 = cc st"
  unfolding inx_dcx_opcodes_def set_simps insert_iff empty_iff
  by (elim disjE FalseE; simp add: emulate_op_switch_def inx_xy_def dcx_xy_def cc_tworeg_add)

text \<open>
  INX and DCX touch registers only, so they return from every state whose \<open>pc\<close> lies
  inside the memory block.
\<close>

lemma inx_dcx_defined:
  assumes "unat (pc st) < length (memory st)"
      and "memory st ! unat (pc st) \<in> set inx_dcx_opcodes"
  shows "\<exists>st'. emulate_op st = Inr st'"
  using assms switch_inx_dcx [OF assms(2), of st "unat (pc st)"]
  by (auto simp add: emulate_op_fetch and_then_def)

text \<open>
  INR and DCR of a register return from every such state too; the memory forms 0x34 and
  0x35 return when the address in HL lies inside the memory block.
\<close>

lemma inr_x_reg_defined: "\<exists>st'. inr_x st (Reg r) = Inr st'"
  by (simp add: inr_x_def and_then_def Let_def)

lemma dcr_x_reg_defined: "\<exists>st'. dcr_x st (Reg r) = Inr st'"
  by (simp add: dcr_x_def and_then_def Let_def)

lemma memory_set_flags: "memory (set_flags st answer flagstoset) = memory st"
  by (simp add: set_flags_def Let_def)

lemma inr_x_mem_defined: "i < length (memory st) \<Longrightarrow> \<exists>st'. inr_x st (Mem i) = Inr st'"
  by (simp add: inr_x_def and_then_def Let_def mem_read_def mem_write_def memory_set_flags)

lemma dcr_x_mem_defined: "i < length (memory st) \<Longrightarrow> \<exists>st'. dcr_x st (Mem i) = Inr st'"
  by (simp add: dcr_x_def and_then_def Let_def mem_read_def mem_write_def memory_set_flags)

lemma switch_inr_dcr_defined:
  assumes "opcode \<in> set inr_dcr_opcodes"
      and "unat (read_hl_addr st) < length (memory st) \<or> opcode \<notin> {0x34, 0x35}"
  shows "\<exists>st1. emulate_op_switch st opc opcode = Inr st1"
  using assms unfolding inr_dcr_opcodes_def set_simps insert_iff empty_iff
  by (elim disjE FalseE;
      simp add: emulate_op_switch_def inr_x_reg_defined dcr_x_reg_defined
        inr_x_mem_defined dcr_x_mem_defined)

lemma inr_dcr_defined:
  assumes "unat (pc st) < length (memory st)"
      and "memory st ! unat (pc st) \<in> set inr_dcr_opcodes"
      and "unat (read_hl_addr st) < length (memory st) \<or>
           memory st ! unat (pc st) \<notin> {0x34, 0x35}"
  shows "\<exists>st'. emulate_op st = Inr st'"
  using assms(1) switch_inr_dcr_defined [OF assms(2,3), of "unat (pc st)"]
  by (auto simp add: emulate_op_fetch and_then_def)

text \<open>
  Claim C8. Whenever \<open>emulate_op\<close> returns from an INR or DCR of a register or of the
  HL-addressed memory cell, the Carry flag is what it was, and the condition codes differ
  from the old ones in Z, S, P and AC only, which hold the flag functions of one answer.
  Whenever it returns from an INX or DCX of a register pair or of SP, the condition codes
  are the old ones.
\<close>

theorem inr_dcr_inx_dcx_flags:
  assumes "unat (pc st) < length (memory st)"
      and "emulate_op st = Inr st'"
  shows "(memory st ! unat (pc st) \<in> set inr_dcr_opcodes \<longrightarrow>
            cy (cc st') = cy (cc st) \<and>
            (\<exists>answer. cc st' = (cc st)\<lparr>z := ucast (zero answer), s := ucast (sign answer),
                          p := ucast (parity answer), ac := ucast (auxcarry answer)\<rparr>)) \<and>
         (memory st ! unat (pc st) \<in> set inx_dcx_opcodes \<longrightarrow> cc st' = cc st)"
proof (intro conjI impI)
  assume op: "memory st ! unat (pc st) \<in> set inr_dcr_opcodes"
  from switch_inr_dcr [OF op] obtain ptr where
    sw: "emulate_op_switch st (unat (pc st)) (memory st ! unat (pc st)) = inr_x st ptr \<or>
         emulate_op_switch st (unat (pc st)) (memory st ! unat (pc st)) = dcr_x st ptr"
    by blast
  from assms obtain st1 where
    st1: "emulate_op_switch st (unat (pc st)) (memory st ! unat (pc st)) = Inr st1"
    and st': "st' = st1\<lparr>pc := pc st1 + 1\<rparr>"
    by (auto simp add: emulate_op_fetch and_then_def split: sum.splits)
  from sw st1 have "inr_x st ptr = Inr st1 \<or> dcr_x st ptr = Inr st1" by auto
  then have "\<exists>answer. cc st1 = (cc st)\<lparr>z := ucast (zero answer), s := ucast (sign answer),
                          p := ucast (parity answer), ac := ucast (auxcarry answer)\<rparr>"
    using inr_x_cc dcr_x_cc by blast
  then show ex: "\<exists>answer. cc st' = (cc st)\<lparr>z := ucast (zero answer), s := ucast (sign answer),
                          p := ucast (parity answer), ac := ucast (auxcarry answer)\<rparr>"
    by (simp add: st')
  then show "cy (cc st') = cy (cc st)" by auto
next
  assume op: "memory st ! unat (pc st) \<in> set inx_dcx_opcodes"
  from switch_inx_dcx [OF op] obtain st1 where
    "emulate_op_switch st (unat (pc st)) (memory st ! unat (pc st)) = Inr st1" "cc st1 = cc st"
    by blast
  with assms show "cc st' = cc st"
    by (auto simp add: emulate_op_fetch and_then_def)
qed

text \<open>
  INR B with B = 0xff in a state whose CY and AC flags are 1: B wraps to 0, Z and S are
  set from the answer 0x100, AC is cleared and CY stays 1. INX B with C = 0xff in a state
  with Z, P, CY and AC set: BC becomes 0x0100 and no flag moves.
\<close>

theorem inr_dcr_inx_dcx_flags_witness:
  "emulate_op ((zeroed_state [0x04])
       \<lparr>b := 0xff, cc := \<lparr>z = 0, s = 0, p = 0, cy = 1, ac = 1, pad = 0\<rparr>\<rparr>)
     = Inr ((zeroed_state [0x04])
       \<lparr>b := 0, pc := 1, cc := \<lparr>z = 1, s = 1, p = 0, cy = 1, ac = 0, pad = 0\<rparr>\<rparr>) \<and>
   cy (cc ((zeroed_state [0x04])
       \<lparr>b := 0, pc := 1, cc := \<lparr>z = 1, s = 1, p = 0, cy = 1, ac = 0, pad = 0\<rparr>\<rparr>))
     = cy (cc ((zeroed_state [0x04])
       \<lparr>b := 0xff, cc := \<lparr>z = 0, s = 0, p = 0, cy = 1, ac = 1, pad = 0\<rparr>\<rparr>)) \<and>
   emulate_op ((zeroed_state [0x03])
       \<lparr>c := 0xff, cc := \<lparr>z = 1, s = 0, p = 1, cy = 1, ac = 1, pad = 0\<rparr>\<rparr>)
     = Inr ((zeroed_state [0x03])
       \<lparr>b := 1, c := 0, pc := 1, cc := \<lparr>z = 1, s = 0, p = 1, cy = 1, ac = 1, pad = 0\<rparr>\<rparr>)"
proof -
  let ?s1 = "(zeroed_state [0x04])
       \<lparr>b := 0xff, cc := \<lparr>z = 0, s = 0, p = 0, cy = 1, ac = 1, pad = 0\<rparr>\<rparr>"
  let ?s1' = "(zeroed_state [0x04])
       \<lparr>b := 0, pc := 1, cc := \<lparr>z = 1, s = 1, p = 0, cy = 1, ac = 0, pad = 0\<rparr>\<rparr>"
  let ?s2 = "(zeroed_state [0x03])
       \<lparr>c := 0xff, cc := \<lparr>z = 1, s = 0, p = 1, cy = 1, ac = 1, pad = 0\<rparr>\<rparr>"
  let ?s2' = "(zeroed_state [0x03])
       \<lparr>b := 1, c := 0, pc := 1, cc := \<lparr>z = 1, s = 0, p = 1, cy = 1, ac = 1, pad = 0\<rparr>\<rparr>"
  have r1: "unat (pc ?s1) < length (memory ?s1)" by (simp add: zeroed_state_def)
  have e1: "emulate_op ?s1 = Inr ?s1'"
    by (simp add: emulate_op_fetch emulate_op_switch_def zeroed_state_def and_then_def
        inr_x_def set_flags_def flag_bits flag_values)
  have o1: "memory ?s1 ! unat (pc ?s1) \<in> set inr_dcr_opcodes"
    by (simp add: zeroed_state_def inr_dcr_opcodes_def)
  have r2: "unat (pc ?s2) < length (memory ?s2)" by (simp add: zeroed_state_def)
  have e2: "emulate_op ?s2 = Inr ?s2'"
    by (simp add: emulate_op_fetch emulate_op_switch_def zeroed_state_def and_then_def
        inx_xy_def tworeg_add_def get16bitval_def Let_def)
  have o2: "memory ?s2 ! unat (pc ?s2) \<in> set inx_dcx_opcodes"
    by (simp add: zeroed_state_def inx_dcx_opcodes_def)
  from inr_dcr_inx_dcx_flags [OF r1 e1] o1 have "cy (cc ?s1') = cy (cc ?s1)" by blast
  moreover from inr_dcr_inx_dcx_flags [OF r2 e2] o2 have "cc ?s2' = cc ?s2" by blast
  ultimately show ?thesis using e1 e2 by simp
qed

section \<open>Rotation through carry\<close>

lemma switch_ral:
  "emulate_op_switch st opc 0x17 =
     Inr (st\<lparr>cc := (cc st)\<lparr>cy := ucast (drop_bit 7 (a st))\<rparr>,
             a := push_bit 1 (a st) OR ucast (cy (cc st))\<rparr>)"
  by (simp add: emulate_op_switch_def Let_def)

lemma switch_rar:
  "emulate_op_switch st opc 0x1F =
     Inr (st\<lparr>cc := (cc st)\<lparr>cy := ucast (a st AND 1)\<rparr>,
             a := drop_bit 1 (a st) OR push_bit 7 (ucast (cy (cc st)))\<rparr>)"
  by (simp add: emulate_op_switch_def Let_def)

lemma bit1_Suc: "\<not> bit (k :: 1 word) (Suc n)"
  by (auto dest: bit_imp_le_length)

text \<open>The accumulator after RAL then RAR, bit by bit: bit 7 comes back through Carry.\<close>

lemma ral_rar_a:
  "drop_bit 1 (push_bit 1 (x :: 8 word) OR ucast (k :: 1 word))
     OR push_bit 7 (ucast (ucast (drop_bit 7 x) :: 1 word)) = x"
proof (rule bit_word_eqI)
  fix n assume "n < LENGTH(8)"
  then have n: "n < 8" by simp
  show "bit (drop_bit 1 (push_bit 1 x OR ucast k)
               OR push_bit 7 (ucast (ucast (drop_bit 7 x) :: 1 word))) n
        \<longleftrightarrow> bit x n"
  proof (cases "n = 7")
    case True
    then show ?thesis
      by (simp add: bit_or_iff bit_drop_bit_eq bit_push_bit_iff bit_ucast_iff
          del: push_bit_of_Suc_0 push_bit_Suc)
  next
    case False
    with n have "n < 7" by simp
    then show ?thesis
      by (simp add: bit_or_iff bit_drop_bit_eq bit_push_bit_iff bit_ucast_iff bit1_Suc
          del: push_bit_of_Suc_0 push_bit_Suc)
  qed
qed

text \<open>Carry after RAL then RAR: it went into bit 0 and comes back out of it.\<close>

lemma ral_rar_cy:
  "(ucast ((push_bit 1 (x :: 8 word) OR ucast (k :: 1 word)) AND 1) :: 1 word) = k"
proof (rule bit_word_eqI)
  fix n assume "n < LENGTH(1)"
  then have n: "n = 0" by simp
  show "bit (ucast ((push_bit 1 x OR ucast k) AND 1) :: 1 word) n \<longleftrightarrow> bit k n"
    unfolding n
    by (simp add: bit_ucast_iff bit_and_iff bit_or_iff bit_push_bit_iff
          del: push_bit_of_Suc_0 push_bit_Suc)
qed

text \<open>
  Claim C9. In every state in which RAL (0x17) stands at \<open>pc\<close> and RAR (0x1F) at the
  next address, both inside the memory block, the two calls of \<open>emulate_op\<close> return, and
  after the second the accumulator and the Carry flag are what they were before the
  first; the whole state is the starting state with \<open>pc\<close> two bytes on.
\<close>

theorem ral_rar_round_trip:
  assumes "unat (pc st) < length (memory st)"
      and "memory st ! unat (pc st) = 0x17"
      and "unat (pc st + 1) < length (memory st)"
      and "memory st ! unat (pc st + 1) = 0x1F"
  shows "\<exists>st1 st2. emulate_op st = Inr st1 \<and> emulate_op st1 = Inr st2 \<and>
           a st2 = a st \<and> cy (cc st2) = cy (cc st) \<and> st2 = st\<lparr>pc := pc st + 2\<rparr>"
proof -
  let ?a1 = "push_bit 1 (a st) OR ucast (cy (cc st))"
  let ?c1 = "ucast (drop_bit 7 (a st)) :: 1 word"
  let ?st1 = "st\<lparr>cc := (cc st)\<lparr>cy := ?c1\<rparr>, a := ?a1, pc := pc st + 1\<rparr>"
  let ?a2 = "drop_bit 1 ?a1 OR push_bit 7 (ucast ?c1)"
  let ?c2 = "ucast (?a1 AND 1) :: 1 word"
  let ?st2 = "?st1\<lparr>cc := (cc ?st1)\<lparr>cy := ?c2\<rparr>, a := ?a2, pc := pc ?st1 + 1\<rparr>"
  let ?mid = "st\<lparr>cc := (cc st)\<lparr>cy := ?c2\<rparr>, a := ?a2, pc := pc st + 2\<rparr>"
  have s1: "emulate_op st = Inr ?st1"
    using assms(1,2) by (simp add: emulate_op_fetch switch_ral and_then_def)
  have s2: "emulate_op ?st1 = Inr ?st2"
    using assms(3,4) by (simp add: emulate_op_fetch switch_rar and_then_def)
  have a2: "?a2 = a st" by (rule ral_rar_a)
  have c2: "?c2 = cy (cc st)" by (rule ral_rar_cy)
  have "?st2 = ?mid" by simp
  also have "?mid = st\<lparr>pc := pc st + 2\<rparr>"
    unfolding a2 c2 by simp
  finally have st2: "?st2 = st\<lparr>pc := pc st + 2\<rparr>" .
  have "a ?st2 = a st \<and> cy (cc ?st2) = cy (cc st)"
    unfolding st2 by simp
  with s1 s2 st2 show ?thesis by blast
qed

text \<open>
  The example of the source's comments: A = 0xB5 and CY = 0, with RAL at address 0 and
  RAR at address 1.
\<close>

theorem ral_rar_round_trip_witness:
  "\<exists>st1 st2. emulate_op ((zeroed_state [0x17, 0x1F])\<lparr>a := 0xB5\<rparr>) = Inr st1 \<and>
     emulate_op st1 = Inr st2 \<and> a st2 = 0xB5 \<and> cy (cc st2) = 0"
  using ral_rar_round_trip [of "(zeroed_state [0x17, 0x1F])\<lparr>a := 0xB5\<rparr>"]
  by (auto simp add: zeroed_state_def)

section \<open>Moves of a register to itself\<close>

lemma switch_self_move:
  "opcode \<in> set self_move_opcodes \<Longrightarrow> emulate_op_switch st opc opcode = Inr st"
  unfolding self_move_opcodes_def set_simps insert_iff empty_iff
  by (elim disjE FalseE; simp add: emulate_op_switch_def)

text \<open>
  Claim C10. In every state whose \<open>pc\<close> lies inside the memory block and whose current
  opcode moves a register to itself (MOV B,B among them), \<open>emulate_op\<close> returns the
  starting state with \<open>pc\<close> one byte on, as it does for NOP: the move itself leaves
  every register, every flag, \<open>sp\<close> and the memory as they were, and the only change is
  the advance of \<open>pc\<close> past the opcode byte that every instruction makes.
\<close>

theorem self_move_only_advances_pc:
  assumes "unat (pc st) < length (memory st)"
      and "memory st ! unat (pc st) \<in> set self_move_opcodes"
  shows "emulate_op st = Inr (st\<lparr>pc := pc st + 1\<rparr>)"
  using assms by (simp add: emulate_op_fetch switch_self_move and_then_def)

text \<open>MOV A,A at address 1, in a state with A = 0x5A and the Carry and Zero flags set.\<close>

theorem self_move_only_advances_pc_witness:
  "emulate_op ((zeroed_state [0x00, 0x7f])
       \<lparr>a := 0x5A, pc := 1, cc := \<lparr>z = 1, s = 0, p = 0, cy = 1, ac = 0, pad = 0\<rparr>\<rparr>)
     = Inr ((zeroed_state [0x00, 0x7f])
       \<lparr>a := 0x5A, pc := 2, cc := \<lparr>z = 1, s = 0, p = 0, cy = 1, ac = 0, pad = 0\<rparr>\<rparr>)"
  using self_move_only_advances_pc [of "(zeroed_state [0x00, 0x7f])
       \<lparr>a := 0x5A, pc := 1, cc := \<lparr>z = 1, s = 0, p = 0, cy = 1, ac = 0, pad = 0\<rparr>\<rparr>"]
  by (simp add: zeroed_state_def self_move_opcodes_def)

end
